theory Spec2Isabelle
  imports Complex_Main "HOL-Library.Sublist"
begin

section \<open>Python strings\<close>

text \<open>
  A Python \<open>str\<close> is a sequence of Unicode code points and \<open>len\<close> counts code points,
  so a string is modelled as the list of its code points. Literals with characters
  outside ASCII are written out code point by code point, the others through
  \<open>ascii\<close>. Calls of \<open>print\<close> are left out everywhere: standard output is taken to
  accept every text.
\<close>

type_synonym pystr = "nat list"

definition ascii :: "string \<Rightarrow> pystr" where
  "ascii s = map of_char s"

text \<open>The decimal rendering of an integer inside an f-string.\<close>

function str_nat :: "nat \<Rightarrow> pystr" where
  "str_nat n = (if n < 10 then [48 + n] else str_nat (n div 10) @ [48 + n mod 10])"
  by pat_completeness auto
termination
  by (relation "measure (\<lambda>n. n)") auto

definition str_int :: "int \<Rightarrow> pystr" where
  "str_int i = (if i < 0 then 45 # str_nat (nat (- i)) else str_nat (nat i))"

text \<open>\<open>sep.join(parts)\<close>.\<close>

fun str_join :: "pystr \<Rightarrow> pystr list \<Rightarrow> pystr" where
  "str_join sep [] = []"
| "str_join sep [x] = x"
| "str_join sep (x # y # ys) = x @ sep @ str_join sep (y # ys)"

text \<open>Python slicing of a string with one bound: \<open>s[:h]\<close> and \<open>s[k:]\<close>. A negative
  bound counts from the end and is clamped at the start of the string.\<close>

definition slice_to :: "pystr \<Rightarrow> int \<Rightarrow> pystr" where
  "slice_to s h = (if 0 \<le> h then take (nat h) s else take (nat (int (length s) + h)) s)"

definition slice_from :: "pystr \<Rightarrow> int \<Rightarrow> pystr" where
  "slice_from s k = (if 0 \<le> k then drop (nat k) s else drop (nat (int (length s) + k)) s)"

text \<open>\<open>str.strip()\<close> with no argument removes the leading and trailing code points for
  which \<open>str.isspace()\<close> holds.\<close>

definition isspace :: "nat \<Rightarrow> bool" where
  "isspace c =
     ((9 \<le> c \<and> c \<le> 13) \<or> (28 \<le> c \<and> c \<le> 32) \<or> c = 133 \<or> c = 160 \<or> c = 5760
      \<or> (8192 \<le> c \<and> c \<le> 8202) \<or> c = 8232 \<or> c = 8233 \<or> c = 8239 \<or> c = 8287
      \<or> c = 12288)"

definition strip :: "pystr \<Rightarrow> pystr" where
  "strip s = rev (dropWhile isspace (rev (dropWhile isspace s)))"

text \<open>The substring test \<open>needle in haystack\<close>.\<close>

fun str_in :: "pystr \<Rightarrow> pystr \<Rightarrow> bool" where
  "str_in needle [] = (needle = [])"
| "str_in needle (c # cs) = (prefix needle (c # cs) \<or> str_in needle cs)"

section \<open>Constants\<close>

text \<open>Lines 19-22.\<close>

definition MAX_RETRIES :: int where
  "MAX_RETRIES = 5"

definition RETRY_DELAY :: int where
  "RETRY_DELAY = 5"

definition MAX_CONTENT_LENGTH :: int where
  "MAX_CONTENT_LENGTH = 8000"

text \<open>Lines 25-45. The two Python sets are only ever tested for membership, so each is
  the list of its elements.\<close>

definition SKIP_DIRS :: "pystr list" where
  "SKIP_DIRS =
     [ascii ''node_modules'', ascii ''venv'', ascii ''.git'', ascii ''__pycache__'',
      ascii ''dist'', ascii ''build'', ascii ''.idea'', ascii ''.vscode'', ascii ''vendor'',
      ascii ''packages'', ascii ''system'']"

definition ANALYZE_EXTENSIONS :: "pystr list" where
  "ANALYZE_EXTENSIONS =
     [ascii ''.py'', ascii ''.js'', ascii ''.jsx'', ascii ''.ts'', ascii ''.tsx'',
      ascii ''.vue'', ascii ''.java'', ascii ''.cpp'', ascii ''.c'', ascii ''.h'',
      ascii ''.hpp'', ascii ''.cs'', ascii ''.go'', ascii ''.rb'', ascii ''.php'',
      ascii ''.html'', ascii ''.css'', ascii ''.scss'', ascii ''.less'', ascii ''.sql'',
      ascii ''.md'', ascii ''.json'', ascii ''.yaml'', ascii ''.yml'', ascii ''.xml'',
      ascii ''.sh'', ascii ''.bash'']"

section \<open>Exceptions and the objects a response body decodes to\<close>

text \<open>
  An exception is its class and the text \<open>str(e)\<close>. Every exception of the model is an
  instance of \<open>Exception\<close>: \<open>ClientError\<close> stands for \<open>aiohttp.ClientError\<close> and its
  subclasses, \<open>OtherException\<close> for every other subclass of \<open>Exception\<close> that a library
  call raises (\<open>OSError\<close>, \<open>UnicodeDecodeError\<close>, \<open>asyncio.TimeoutError\<close>, ...).
  Cancellation and interrupts, which are not instances of \<open>Exception\<close>, are outside
  the model.
\<close>

datatype exn_class =
  ClientError | JSONDecodeError | KeyError | TypeError | IndexError | AttributeError
  | OtherException

datatype exn = Exn (exn_cls: exn_class) (exn_str: pystr)

text \<open>The objects \<open>json.loads\<close> returns. A dict is the list of its items, read with
  \<open>map_of\<close>. A float is a rational here (the program never computes with one).\<close>

datatype json =
  JNull | JBool bool | JInt int | JFloat rat | JStr pystr | JArr "json list"
  | JObj "(pystr \<times> json) list"

fun type_name :: "json \<Rightarrow> pystr" where
  "type_name JNull = ascii ''NoneType''"
| "type_name (JBool b) = ascii ''bool''"
| "type_name (JInt i) = ascii ''int''"
| "type_name (JFloat x) = ascii ''float''"
| "type_name (JStr s) = ascii ''str''"
| "type_name (JArr xs) = ascii ''list''"
| "type_name (JObj kvs) = ascii ''dict''"

text \<open>Truth value of an object, as \<open>not content\<close> reads it.\<close>

fun truthy :: "json \<Rightarrow> bool" where
  "truthy JNull = False"
| "truthy (JBool b) = b"
| "truthy (JInt i) = (i \<noteq> 0)"
| "truthy (JFloat x) = (x \<noteq> 0)"
| "truthy (JStr s) = (s \<noteq> [])"
| "truthy (JArr xs) = (xs \<noteq> [])"
| "truthy (JObj kvs) = (kvs \<noteq> [])"

text \<open>\<open>obj[k]\<close> for a string key \<open>k\<close>. The text of the \<open>KeyError\<close> is the \<open>repr\<close> of the
  key, which for the three keys the program uses is the key between single quotes. The
  wording of the \<open>TypeError\<close>s is CPython's (3.11 and later for the string case).\<close>

fun subscript_key :: "json \<Rightarrow> pystr \<Rightarrow> exn + json" where
  "subscript_key (JObj kvs) k =
     (case map_of kvs k of
        Some v \<Rightarrow> Inr v
      | None \<Rightarrow> Inl (Exn KeyError ([39] @ k @ [39])))"
| "subscript_key (JArr xs) k =
     Inl (Exn TypeError (ascii ''list indices must be integers or slices, not str''))"
| "subscript_key (JStr s) k =
     Inl (Exn TypeError
       (ascii ''string indices must be integers, not '' @ [39] @ ascii ''str'' @ [39]))"
| "subscript_key v k =
     Inl (Exn TypeError
       ([39] @ type_name v @ [39] @ ascii '' object is not subscriptable''))"

text \<open>\<open>obj[0]\<close>. The keys of a decoded dict are strings, so \<open>0\<close> is never one of them.\<close>

fun subscript_zero :: "json \<Rightarrow> exn + json" where
  "subscript_zero (JArr []) = Inl (Exn IndexError (ascii ''list index out of range''))"
| "subscript_zero (JArr (x # xs)) = Inr x"
| "subscript_zero (JStr []) = Inl (Exn IndexError (ascii ''string index out of range''))"
| "subscript_zero (JStr (c # cs)) = Inr (JStr [c])"
| "subscript_zero (JObj kvs) = Inl (Exn KeyError (ascii ''0''))"
| "subscript_zero v =
     Inl (Exn TypeError
       ([39] @ type_name v @ [39] @ ascii '' object is not subscriptable''))"

text \<open>\<open>len(obj)\<close>.\<close>

fun py_len :: "json \<Rightarrow> exn + nat" where
  "py_len (JStr s) = Inr (length s)"
| "py_len (JArr xs) = Inr (length xs)"
| "py_len (JObj kvs) = Inr (length kvs)"
| "py_len v =
     Inl (Exn TypeError
       (ascii ''object of type '' @ [39] @ type_name v @ [39] @ ascii '' has no len()''))"

section \<open>The content loader and the truncator\<close>

text \<open>The elision marker of line 62: a line feed, three dots, an opening parenthesis,
  the five CJK characters U+5185 U+5BB9 U+5DF2 U+622A U+65AD, a closing parenthesis,
  three dots and a line feed.\<close>

definition elision_marker :: pystr where
  "elision_marker =
     [10, 46, 46, 46, 40, 20869, 23481, 24050, 25130, 26029, 41, 46, 46, 46, 10]"

text \<open>\<open>truncate_content\<close>, lines 55-62, on a string. \<open>max_length // 2\<close> is floor
  division, which is \<open>div\<close> on \<open>int\<close>.\<close>

definition truncate_content :: "pystr \<Rightarrow> int \<Rightarrow> pystr" where
  "truncate_content content max_length =
     (if int (length content) \<le> max_length then content
      else (let half_length = max_length div 2
            in slice_to content half_length @ elision_marker
               @ slice_from content (- half_length)))"

section \<open>The report validator\<close>

text \<open>The five section markers of lines 180-183, in the order of the list:
  U+529F U+80FD U+6982 U+8FF0, U+67B6 U+6784 U+8BBE U+8BA1, U+5B9E U+73B0 U+7EC6 U+8282,
  U+4F9D U+8D56 U+5206 U+6790 and U+6838 U+5FC3 U+6D41 U+7A0B.\<close>

definition required_sections :: "pystr list" where
  "required_sections =
     [[21151, 33021, 27010, 36848],
      [26550, 26500, 35774, 35745],
      [23454, 29616, 32454, 33410],
      [20381, 36182, 20998, 26512],
      [26680, 24515, 27969, 31243]]"

text \<open>\<open>verify_markdown\<close>, lines 174-185. Its argument is whatever \<open>analyze_with_claude\<close>
  returned. A falsy object is rejected by \<open>not content\<close>; a truthy object that is not a
  string has no \<open>strip\<close>, and the \<open>AttributeError\<close> leaves the function.\<close>

fun verify_markdown :: "json \<Rightarrow> exn + bool" where
  "verify_markdown (JStr content) =
     Inr (if content = [] \<or> length (strip content) < 100 then False
          else list_all (\<lambda>section. str_in section content) required_sections)"
| "verify_markdown v =
     (if \<not> truthy v then Inr False
      else Inl (Exn AttributeError
        ([39] @ type_name v @ [39] @ ascii '' object has no attribute '' @ [39]
         @ ascii ''strip'' @ [39])))"

declare verify_markdown.simps [simp del]

section \<open>The world: requests, sleeps, validations and writes\<close>

text \<open>
  What the program does to its surroundings is recorded as a trace of events, in order.
  \<open>Request p\<close> is one POST with prompt \<open>p\<close>; \<open>Sleep t\<close> is \<open>asyncio.sleep(t)\<close>;
  \<open>Verify v b\<close> is a call of \<open>verify_markdown\<close> on \<open>v\<close> that returned \<open>b\<close>;
  \<open>Write f v\<close> is the block of lines 229-230 on file \<open>f\<close> with object \<open>v\<close>.
  \<open>requests\<close> counts the POSTs made so far.
\<close>

datatype event = Request pystr | Sleep int | Verify json bool | Write pystr json

record world =
  requests :: nat
  trace :: "event list"

definition post :: "pystr \<Rightarrow> world \<Rightarrow> world" where
  "post p w = w\<lparr>requests := requests w + 1, trace := trace w @ [Request p]\<rparr>"

definition sleep :: "int \<Rightarrow> world \<Rightarrow> world" where
  "sleep t w = w\<lparr>trace := trace w @ [Sleep t]\<rparr>"

definition log_event :: "event \<Rightarrow> world \<Rightarrow> world" where
  "log_event e w = w\<lparr>trace := trace w @ [e]\<rparr>"

text \<open>
  What the HTTP layer answers to one POST (lines 114-120): either an exception leaves the
  \<open>async with\<close> blocks, or there is a response with its status, its body text and what
  \<open>json.loads\<close> makes of that text (the decoded object, or the exception it raises).
  \<open>json.loads\<close> is a library function; its result is part of the answer.
\<close>

datatype outcome = Raises exn | Response int pystr "exn + json"

section \<open>The analysis client\<close>

text \<open>The prompt of lines 76-106: the fixed template, the truncated content and a final
  line feed.\<close>

definition prompt_head :: pystr where
  "prompt_head =
     [35831, 20998, 26512, 20197, 19979, 20195, 30721, 30340, 32467, 26500, 21644, 23454,
      29616, 58, 10, 49, 46, 32, 21151, 33021, 27010, 36848, 10, 45, 32, 27492, 20195,
      30721, 30340, 20027, 35201, 30446, 26631, 21644, 29992, 36884, 26159, 20160, 20040,
      63, 10, 45, 32, 35299, 20915, 20102, 20160, 20040, 20855, 20307, 19994, 21153, 47,
      25216, 26415, 38382, 39064, 63, 10, 45, 32, 20027, 35201, 30340, 36755, 20837, 36755,
      20986, 26159, 20160, 20040, 63, 10, 10, 50, 46, 32, 26550, 26500, 35774, 35745, 10,
      45, 32, 25972, 20307, 26550, 26500, 21644, 27169, 22359, 21010, 20998, 10, 45, 32,
      26680, 24515, 31867, 47, 25509, 21475, 21450, 20854, 32844, 36131, 10, 45, 32, 20851,
      38190, 30340, 35774, 35745, 27169, 24335, 24212, 29992, 10, 10, 51, 46, 32, 23454,
      29616, 32454, 33410, 10, 45, 32, 20027, 35201, 20989, 25968, 30340, 21151, 33021,
      35828, 26126, 21644, 23454, 29616, 36923, 36753, 10, 45, 32, 20851, 38190, 31639,
      27861, 21644, 25968, 25454, 32467, 26500, 10, 45, 32, 24322, 24120, 22788, 29702,
      26426, 21046, 10, 45, 32, 24615, 33021, 30456, 20851, 30340, 23454, 29616, 10, 10,
      52, 46, 32, 20381, 36182, 20998, 26512, 10, 45, 32, 22806, 37096, 20381, 36182,
      39033, 21450, 20854, 29256, 26412, 10, 45, 32, 27169, 22359, 38388, 30340, 20381,
      36182, 20851, 31995, 10, 45, 32, 20851, 38190, 30340, 31532, 19977, 26041, 24211,
      20351, 29992, 10, 10, 53, 46, 32, 26680, 24515, 27969, 31243, 10, 45, 32, 20027,
      35201, 19994, 21153, 27969, 31243, 30340, 23454, 29616, 27493, 39588, 10, 45, 32,
      20851, 38190, 30340, 25511, 21046, 27969, 31243, 10, 45, 32, 25968, 25454, 27969,
      36716, 36807, 31243, 10, 10, 10, 20998, 26512, 20869, 23481, 58, 10]"

definition prompt :: "pystr \<Rightarrow> pystr" where
  "prompt truncated_content = prompt_head @ truncated_content @ [10]"

text \<open>\<open>result['choices'][0]['message']['content']\<close>, line 127.\<close>

definition extract_content :: "json \<Rightarrow> exn + json" where
  "extract_content result =
     (case subscript_key result (ascii ''choices'') of
        Inl e \<Rightarrow> Inl e
      | Inr choices \<Rightarrow>
          (case subscript_zero choices of
             Inl e \<Rightarrow> Inl e
           | Inr choice \<Rightarrow>
               (case subscript_key choice (ascii ''message'') of
                  Inl e \<Rightarrow> Inl e
                | Inr message \<Rightarrow> subscript_key message (ascii ''content''))))"

text \<open>
  How the \<open>try\<close> block of lines 113-146 ends: it returns an object, or an exception
  reaches the handlers of lines 147-162. Line 127 assigns to the parameter \<open>content\<close>,
  so when \<open>len(content)\<close> of line 128 raises, the handler's retry passes the decoded
  object instead of the text; the flag of \<open>Raised\<close> says that this has happened.
\<close>

datatype try_result = Returned json | Raised exn bool

text \<open>The branch of status 200, lines 125-136. The two inner handlers only print and
  raise again.\<close>

definition on_200 :: "exn + json \<Rightarrow> try_result" where
  "on_200 parsed =
     (case parsed of
        Inl e \<Rightarrow> Raised e False
      | Inr result \<Rightarrow>
          (case extract_content result of
             Inl e \<Rightarrow> Raised e False
           | Inr content \<Rightarrow>
               (case py_len content of
                  Inl e \<Rightarrow> Raised e True
                | Inr n \<Rightarrow> Returned content)))"

text \<open>The strings of lines 144, 146, 154 and 162.\<close>

definition max_retries_message :: "pystr \<Rightarrow> pystr" where
  "max_retries_message response_text =
     [36798, 21040, 26368, 22823, 37325, 35797, 27425, 25968, 32, 40]
     @ str_int MAX_RETRIES
     @ [41, 65292, 26368, 21518, 38169, 35823, 58, 32] @ response_text"

definition api_error_message :: "int \<Rightarrow> pystr \<Rightarrow> pystr" where
  "api_error_message status response_text =
     [65, 80, 73, 38169, 35823, 32, 40, 72, 84, 84, 80, 32] @ str_int status
     @ [41, 58, 32] @ response_text"

definition network_error_message :: "int \<Rightarrow> exn \<Rightarrow> pystr" where
  "network_error_message retry_count e =
     [32593, 32476, 38169, 35823, 32, 40, 37325, 35797] @ str_int retry_count
     @ [27425, 21518, 41, 58, 32] @ exn_str e"

definition error_message :: "int \<Rightarrow> exn \<Rightarrow> pystr" where
  "error_message retry_count e =
     [38169, 35823, 32, 40, 37325, 35797] @ str_int retry_count
     @ [27425, 21518, 41, 58, 32] @ exn_str e"

definition failure_message :: "int \<Rightarrow> exn \<Rightarrow> pystr" where
  "failure_message retry_count e =
     (if exn_cls e = ClientError then network_error_message retry_count e
      else error_message retry_count e)"

text \<open>
  \<open>analyze_with_claude\<close>, lines 64-162, called with a string. \<open>http n\<close> is the answer
  to the POST number \<open>n\<close> (counted from 0) of the run.

  The recursive call of line 142 stands inside the \<open>try\<close> block, so an exception that
  leaves it reaches the handlers of the calling frame; the calls of lines 153 and 161 stand
  in the handlers, so an exception that leaves them leaves the function. When the flag of
  \<open>Raised\<close> is set, the call of line 161 passes an object without \<open>len()\<close>: line 74 calls
  \<open>truncate_content\<close>, whose \<open>len(content)\<close> raises the same \<open>TypeError\<close> again, before
  the \<open>try\<close> block is entered and before any request.
\<close>

function analyze_with_claude ::
  "(nat \<Rightarrow> outcome) \<Rightarrow> pystr \<Rightarrow> pystr \<Rightarrow> int \<Rightarrow> world \<Rightarrow> (exn + json) \<times> world" where
  "analyze_with_claude http content directory_name retry_count w =
     (let truncated_content = truncate_content content MAX_CONTENT_LENGTH;
          w1 = post (prompt truncated_content) w;
          (r, w2) =
            (case http (requests w) of
               Raises e \<Rightarrow> (Raised e False, w1)
             | Response status response_text parsed \<Rightarrow>
                 if status = 200 then (on_200 parsed, w1)
                 else if status = 429 then
                   (if retry_count < MAX_RETRIES then
                      (case analyze_with_claude http content directory_name (retry_count + 1)
                              (sleep (RETRY_DELAY * (retry_count + 1)) w1) of
                         (Inr v, w') \<Rightarrow> (Returned v, w')
                       | (Inl e, w') \<Rightarrow> (Raised e False, w'))
                    else (Returned (JStr (max_retries_message response_text)), w1))
                 else (Returned (JStr (api_error_message status response_text)), w1))
      in case r of
           Returned v \<Rightarrow> (Inr v, w2)
         | Raised e rebound \<Rightarrow>
             if retry_count < MAX_RETRIES then
               (let w3 = sleep (RETRY_DELAY * (retry_count + 1)) w2
                in if rebound then (Inl e, w3)
                   else analyze_with_claude http content directory_name (retry_count + 1) w3)
             else (Inr (JStr (failure_message retry_count e)), w2))"
  by pat_completeness auto
termination
  by (relation "measure (\<lambda>(http, content, directory_name, retry_count, w).
        nat (MAX_RETRIES - retry_count))") auto

declare analyze_with_claude.simps [simp del]

section \<open>Paths and the file filters\<close>

text \<open>\<open>os.path.basename\<close>, \<open>os.path.join\<close> of two components and the extension part of
  \<open>os.path.splitext\<close>, as \<open>posixpath\<close> defines them (the separator is \<open>/\<close>, code
  point 47; the extension separator is the dot, code point 46). The extension starts at
  the last dot of the last component, unless only dots stand before it there.\<close>

definition basename :: "pystr \<Rightarrow> pystr" where
  "basename p = rev (takeWhile (\<lambda>c. c \<noteq> 47) (rev p))"

definition path_join :: "pystr \<Rightarrow> pystr \<Rightarrow> pystr" where
  "path_join a b =
     (if b \<noteq> [] \<and> hd b = 47 then b
      else if a = [] \<or> last a = 47 then a @ b
      else a @ [47] @ b)"

definition splitext_ext :: "pystr \<Rightarrow> pystr" where
  "splitext_ext p =
     (let name = basename p;
          suffix = rev (takeWhile (\<lambda>c. c \<noteq> 46) (rev name));
          stem = take (length name - length suffix - 1) name
      in if 46 \<in> set name \<and> list_ex (\<lambda>c. c \<noteq> 46) stem then 46 # suffix else [])"

text \<open>\<open>str.lower()\<close> on the letters A to Z. On other code points \<open>lower\<close> differs from
  the identity only where the result has a code point outside ASCII or the letter k
  (from U+212A), and no analyzable extension has either, so the membership test of line
  167 is the one of the source.\<close>

definition lower :: "pystr \<Rightarrow> pystr" where
  "lower s = map (\<lambda>c. if 65 \<le> c \<and> c \<le> 90 then c + 32 else c) s"

text \<open>Lines 164-172.\<close>

definition should_analyze_file :: "pystr \<Rightarrow> bool" where
  "should_analyze_file file_path =
     (let ext = lower (splitext_ext file_path) in ext \<in> set ANALYZE_EXTENSIONS)"

definition should_skip_directory :: "pystr \<Rightarrow> bool" where
  "should_skip_directory dir_path =
     (let dir_name = basename dir_path in dir_name \<in> set SKIP_DIRS)"

section \<open>The directory analyzer\<close>

text \<open>
  The surroundings of one run, apart from the trace: the answers of the HTTP layer, the
  directory listings (\<open>os.listdir\<close> can raise), \<open>os.path.isfile\<close>, what opening and
  reading a file as UTF-8 gives, \<open>os.path.relpath\<close>, the text of
  \<open>datetime.now().strftime("%Y%m%d_%H%M%S")\<close> after a given history, and whether
  opening and writing the report file raises.
\<close>

record env =
  http_layer :: "nat \<Rightarrow> outcome"
  listdir :: "pystr \<Rightarrow> exn + pystr list"
  isfile :: "pystr \<Rightarrow> bool"
  read_text :: "pystr \<Rightarrow> exn + pystr"
  relpath :: "pystr \<Rightarrow> pystr \<Rightarrow> pystr"
  now :: "event list \<Rightarrow> pystr"
  write_text :: "pystr \<Rightarrow> pystr \<Rightarrow> exn option"

text \<open>\<open>get_file_content\<close>, lines 47-53.\<close>

definition get_file_content :: "env \<Rightarrow> pystr \<Rightarrow> pystr" where
  "get_file_content env file_path =
     (case read_text env file_path of
        Inr text \<Rightarrow> text
      | Inl e \<Rightarrow> ascii ''Error reading file: '' @ exn_str e)"

text \<open>Lines 197-202: the analyzable files among the items of the listing.\<close>

definition collect_files :: "env \<Rightarrow> pystr \<Rightarrow> pystr list \<Rightarrow> pystr list" where
  "collect_files env directory items =
     filter (\<lambda>full_path. isfile env full_path \<and> should_analyze_file full_path)
       (map (path_join directory) items)"

text \<open>Lines 210-215: one part per file, joined with line feeds.\<close>

definition content_part :: "env \<Rightarrow> pystr \<Rightarrow> pystr \<Rightarrow> pystr" where
  "content_part env directory file_path =
     (let rel_path = relpath env file_path directory;
          content = get_file_content env file_path
      in [10] @ ascii ''### File: '' @ rel_path @ [10, 96, 96, 96, 10] @ content
         @ [10, 96, 96, 96])"

definition build_content :: "env \<Rightarrow> pystr \<Rightarrow> pystr list \<Rightarrow> pystr" where
  "build_content env directory files = str_join [10] (map (content_part env directory) files)"

text \<open>Lines 226-233: the report file is opened and \<open>analysis\<close> is written to it.
  \<open>f.write\<close> takes a string only.\<close>

definition write_report :: "env \<Rightarrow> pystr \<Rightarrow> json \<Rightarrow> world \<Rightarrow> (exn + unit) \<times> world" where
  "write_report env directory analysis w =
     (let timestamp = now env (trace w);
          output_file =
            path_join directory (ascii ''directory_analysis_'' @ timestamp @ ascii ''.md'');
          w1 = log_event (Write output_file analysis) w
      in case analysis of
           JStr s \<Rightarrow>
             (case write_text env output_file s of
                None \<Rightarrow> (Inr (), w1)
              | Some e \<Rightarrow> (Inl e, w1))
         | v \<Rightarrow>
             (Inl (Exn TypeError
                (ascii ''write() argument must be str, not '' @ type_name v)), w1))"

text \<open>The loop of lines 222-242, entered with the current \<open>analysis\<close> and
  \<open>retry_count\<close>. An exception of \<open>verify_markdown\<close> or of \<open>analyze_with_claude\<close>
  leaves the function.\<close>

function validate_loop ::
  "env \<Rightarrow> pystr \<Rightarrow> pystr \<Rightarrow> pystr \<Rightarrow> json \<Rightarrow> int \<Rightarrow> world \<Rightarrow> (exn + unit) \<times> world" where
  "validate_loop env directory full_content dir_name analysis retry_count w =
     (if retry_count < MAX_RETRIES then
        (case verify_markdown analysis of
           Inl e \<Rightarrow> (Inl e, w)
         | Inr ok \<Rightarrow>
             (let w1 = log_event (Verify analysis ok) w
              in if ok then write_report env directory analysis w1
                 else if retry_count + 1 < MAX_RETRIES then
                   (case analyze_with_claude (http_layer env) full_content dir_name 0
                           (sleep (RETRY_DELAY * (retry_count + 1)) w1) of
                      (Inl e, w2) \<Rightarrow> (Inl e, w2)
                    | (Inr analysis', w2) \<Rightarrow>
                        validate_loop env directory full_content dir_name analysis'
                          (retry_count + 1) w2)
                 else validate_loop env directory full_content dir_name analysis
                        (retry_count + 1) w1))
      else (Inr (), w))"
  by pat_completeness auto
termination
  by (relation "measure (\<lambda>(env, directory, full_content, dir_name, analysis, retry_count, w).
        nat (MAX_RETRIES - retry_count))") auto

declare validate_loop.simps [simp del]

text \<open>\<open>analyze_single_directory\<close>, lines 187-242.\<close>

definition analyze_single_directory ::
  "env \<Rightarrow> pystr \<Rightarrow> pystr \<Rightarrow> world \<Rightarrow> (exn + unit) \<times> world" where
  "analyze_single_directory env directory base_dir w =
     (if should_skip_directory directory then (Inr (), w)
      else
        (case listdir env directory of
           Inl e \<Rightarrow> (Inl e, w)
         | Inr items \<Rightarrow>
             (let files = collect_files env directory items
              in if files = [] then (Inr (), w)
                 else
                   (let full_content = build_content env directory files;
                        dir_name = relpath env directory base_dir
                    in case analyze_with_claude (http_layer env) full_content dir_name 0 w of
                         (Inl e, w1) \<Rightarrow> (Inl e, w1)
                       | (Inr analysis, w1) \<Rightarrow>
                           validate_loop env directory full_content dir_name analysis 0 w1))))"

section \<open>The orchestrator\<close>


section \<open>Reading a trace\<close>




section \<open>Properties of the truncator\<close>

lemma truncate_content_short:
  "length s \<le> 8000 \<Longrightarrow> truncate_content s MAX_CONTENT_LENGTH = s"
  by (simp add: truncate_content_def MAX_CONTENT_LENGTH_def)

lemma truncate_content_long:
  assumes "8000 < length s"
  shows "truncate_content s MAX_CONTENT_LENGTH =
           take 4000 s @ elision_marker @ drop (length s - 4000) s"
proof -
  have "nat (int (length s) - 4000) = length s - 4000" by simp
  with assms show ?thesis
    by (simp add: truncate_content_def MAX_CONTENT_LENGTH_def slice_to_def slice_from_def)
qed

lemma length_elision_marker: "length elision_marker = 15"
  by (simp add: elision_marker_def)

text \<open>
  C5. At the maximum length 8000, \<open>truncate_content\<close> returns a string of at most 8000
  code points unchanged; a longer one becomes its first 4000 code points, the elision
  marker and its last 4000 code points, so the result has
  \<open>2 * (8000 div 2) + len(marker)\<close> code points.
\<close>

theorem truncate_content_spec:
  "truncate_content s MAX_CONTENT_LENGTH =
     (if length s \<le> 8000 then s
      else take 4000 s @ elision_marker @ drop (length s - 4000) s)
   \<and> length (truncate_content s MAX_CONTENT_LENGTH) =
     (if length s \<le> 8000 then length s else 2 * (8000 div 2) + length elision_marker)"
  by (simp add: truncate_content_short truncate_content_long length_elision_marker)

theorem truncate_content_spec_witness:
  "truncate_content (replicate 8001 7) MAX_CONTENT_LENGTH =
     replicate 4000 7 @ elision_marker @ replicate 4000 7
   \<and> length (truncate_content (replicate 8001 7) MAX_CONTENT_LENGTH) = 8015
   \<and> truncate_content (replicate 8000 7) MAX_CONTENT_LENGTH = replicate 8000 7"
  using truncate_content_spec [of "replicate 8001 7"] truncate_content_spec [of "replicate 8000 7"]
  by (simp add: length_elision_marker)

text \<open>
  C10. At the maximum length 8000, \<open>truncate_content\<close> is idempotent, although the
  result for an input of more than 8000 code points has 8015 code points, which is more
  than the maximum.
\<close>

theorem truncate_content_idempotent:
  "truncate_content (truncate_content s MAX_CONTENT_LENGTH) MAX_CONTENT_LENGTH =
     truncate_content s MAX_CONTENT_LENGTH
   \<and> length (truncate_content s MAX_CONTENT_LENGTH) =
     (if length s \<le> 8000 then length s else 8015)
   \<and> (8015::nat) > 8000"
proof (cases "length s \<le> 8000")
  case True
  then show ?thesis by (simp add: truncate_content_short)
next
  case False
  then have long: "8000 < length s" by simp
  define a where "a = take 4000 s"
  define b where "b = drop (length s - 4000) s"
  have la: "length a = 4000" and lb: "length b = 4000"
    using long by (simp_all add: a_def b_def)
  have t: "truncate_content s MAX_CONTENT_LENGTH = a @ elision_marker @ b"
    using long by (simp add: truncate_content_long a_def b_def)
  have "8000 < length (a @ elision_marker @ b)"
    by (simp add: la lb length_elision_marker)
  then have "truncate_content (a @ elision_marker @ b) MAX_CONTENT_LENGTH =
      take 4000 (a @ elision_marker @ b) @ elision_marker
      @ drop (length (a @ elision_marker @ b) - 4000) (a @ elision_marker @ b)"
    by (rule truncate_content_long)
  also have "take 4000 (a @ elision_marker @ b) = a"
    by (simp add: la)
  also have "drop (length (a @ elision_marker @ b) - 4000) (a @ elision_marker @ b) = b"
    by (simp add: la lb length_elision_marker)
  finally have "truncate_content (a @ elision_marker @ b) MAX_CONTENT_LENGTH =
      a @ elision_marker @ b" .
  with t long show ?thesis
    by (simp add: la lb length_elision_marker)
qed

section \<open>Properties of the validator\<close>

lemma str_in_iff: "str_in needle hay \<longleftrightarrow> (\<exists>p s. hay = p @ needle @ s)"
proof (induction hay)
  case Nil
  then show ?case by auto
next
  case (Cons c cs)
  show ?case
  proof
    assume "str_in needle (c # cs)"
    then consider "prefix needle (c # cs)" | "str_in needle cs" by auto
    then show "\<exists>p s. c # cs = p @ needle @ s"
    proof cases
      case 1
      then obtain s where "c # cs = needle @ s" by (auto simp: prefix_def)
      then have "c # cs = [] @ needle @ s" by simp
      then show ?thesis by blast
    next
      case 2
      with Cons.IH obtain p s where "cs = p @ needle @ s" by blast
      then have "c # cs = (c # p) @ needle @ s" by simp
      then show ?thesis by blast
    qed
  next
    assume "\<exists>p s. c # cs = p @ needle @ s"
    then obtain p s where ps: "c # cs = p @ needle @ s" by blast
    show "str_in needle (c # cs)"
    proof (cases p)
      case Nil
      with ps have "prefix needle (c # cs)" by (simp add: prefix_def)
      then show ?thesis by simp
    next
      case (Cons a p')
      with ps have "cs = p' @ needle @ s" by simp
      with Cons.IH have "str_in needle cs" by blast
      then show ?thesis by simp
    qed
  qed
qed

lemma verify_markdown_str:
  "verify_markdown (JStr s) =
     Inr (100 \<le> length (strip s) \<and> list_all (\<lambda>m. str_in m s) required_sections)"
  by (cases "s = []") (simp_all add: strip_def verify_markdown.simps)

text \<open>
  C6. On a string, \<open>verify_markdown\<close> returns \<open>False\<close> when the string is empty, when
  its stripped length is under 100, or when one of the five section markers does not occur
  in it; it returns \<open>True\<close> exactly when the stripped length is at least 100 and all five
  markers occur as substrings.
\<close>

theorem verify_markdown_spec:
  "(verify_markdown (JStr s) = Inr True \<or> verify_markdown (JStr s) = Inr False)
   \<and> (verify_markdown (JStr s) = Inr True \<longleftrightarrow>
        100 \<le> length (strip s)
        \<and> (\<forall>m \<in> set required_sections. \<exists>p q. s = p @ m @ q))
   \<and> (s = [] \<longrightarrow> verify_markdown (JStr s) = Inr False)
   \<and> (length (strip s) < 100 \<longrightarrow> verify_markdown (JStr s) = Inr False)
   \<and> (\<forall>m \<in> set required_sections.
        \<not> (\<exists>p q. s = p @ m @ q) \<longrightarrow> verify_markdown (JStr s) = Inr False)
   \<and> required_sections =
        [[21151, 33021, 27010, 36848], [26550, 26500, 35774, 35745],
         [23454, 29616, 32454, 33410], [20381, 36182, 20998, 26512],
         [26680, 24515, 27969, 31243]]"
proof -
  define long where "long \<longleftrightarrow> 100 \<le> length (strip s)"
  define marked where "marked \<longleftrightarrow> (\<forall>m \<in> set required_sections. \<exists>p q. s = p @ m @ q)"
  have v: "verify_markdown (JStr s) = Inr (long \<and> marked)"
    by (simp only: verify_markdown_str list_all_iff str_in_iff long_def marked_def)
  have c1: "verify_markdown (JStr s) = Inr True \<or> verify_markdown (JStr s) = Inr False"
    by (cases "long \<and> marked") (simp_all add: v)
  have c2: "verify_markdown (JStr s) = Inr True \<longleftrightarrow> long \<and> marked"
    by (simp add: v)
  have c3: "s = [] \<longrightarrow> verify_markdown (JStr s) = Inr False"
  proof
    assume "s = []"
    then have "\<not> long" by (simp add: long_def strip_def)
    then show "verify_markdown (JStr s) = Inr False" by (simp add: v)
  qed
  have c4: "length (strip s) < 100 \<longrightarrow> verify_markdown (JStr s) = Inr False"
    by (simp add: v long_def)
  have c5: "\<forall>m \<in> set required_sections.
      \<not> (\<exists>p q. s = p @ m @ q) \<longrightarrow> verify_markdown (JStr s) = Inr False"
  proof (intro ballI impI)
    fix m
    assume "m \<in> set required_sections" and "\<not> (\<exists>p q. s = p @ m @ q)"
    then have "\<not> marked" unfolding marked_def by blast
    then show "verify_markdown (JStr s) = Inr False" by (simp add: v)
  qed
  have c6: "required_sections =
        [[21151, 33021, 27010, 36848], [26550, 26500, 35774, 35745],
         [23454, 29616, 32454, 33410], [20381, 36182, 20998, 26512],
         [26680, 24515, 27969, 31243]]"
    by (simp only: required_sections_def)
  from c1 c2 c3 c4 c5 c6 show ?thesis
    unfolding long_def marked_def by (intro conjI)
qed



lemma dropWhile_keep: "xs \<noteq> [] \<Longrightarrow> \<not> P (hd xs) \<Longrightarrow> dropWhile P xs = xs"
  by (cases xs) simp_all

lemma strip_unchanged:
  assumes "s \<noteq> []" and "\<not> isspace (hd s)" and "\<not> isspace (last s)"
  shows "strip s = s"
proof -
  have "dropWhile isspace s = s"
    using assms by (simp add: dropWhile_keep)
  moreover have "dropWhile isspace (rev s) = rev s"
    using assms by (simp add: dropWhile_keep hd_rev)
  ultimately show ?thesis by (simp add: strip_def)
qed

lemma str_in_concat:
  assumes "m \<in> set ms"
  shows "str_in m (front @ concat ms @ back)"
proof -
  from assms obtain ys zs where "ms = ys @ m # zs" by (auto dest: split_list)
  then have "front @ concat ms @ back = (front @ concat ys) @ m @ (concat zs @ back)" by simp
  then show ?thesis unfolding str_in_iff by blast
qed

lemma verify_markdown_accepts:
  assumes "100 \<le> length (strip (front @ concat required_sections @ back))"
  shows "verify_markdown (JStr (front @ concat required_sections @ back)) = Inr True"
  using assms by (simp add: verify_markdown_str list_all_iff str_in_concat)

lemma str_in_subset: "str_in m s \<Longrightarrow> set m \<subseteq> set s"
  by (auto simp: str_in_iff)

theorem verify_markdown_spec_witness:
  "verify_markdown (JStr (concat required_sections @ replicate 100 65)) = Inr True
   \<and> 100 \<le> length (strip (concat required_sections @ replicate 100 65))
   \<and> verify_markdown (JStr []) = Inr False
   \<and> verify_markdown (JStr (replicate 100 32)) = Inr False
   \<and> verify_markdown (JStr (replicate 100 65)) = Inr False"
proof -
  let ?good = "concat required_sections @ replicate 100 65"
  have "strip ?good = ?good"
    by (rule strip_unchanged) (simp_all add: required_sections_def isspace_def)
  then have "100 \<le> length (strip ([] @ concat required_sections @ replicate 100 65))"
    by simp
  then have "verify_markdown (JStr ([] @ concat required_sections @ replicate 100 65)) = Inr True"
    by (rule verify_markdown_accepts)
  then have good: "verify_markdown (JStr ?good) = Inr True" by simp
  have "dropWhile isspace (replicate 100 32) = []"
    by (simp add: dropWhile_eq_Nil_conv isspace_def)
  then have short: "length (strip (replicate 100 32)) < 100"
    by (simp add: strip_def)
  have missing: "\<not> (\<exists>p q. replicate 100 (65::nat) = p @ [21151, 33021, 27010, 36848] @ q)"
  proof
    assume "\<exists>p q. replicate 100 (65::nat) = p @ [21151, 33021, 27010, 36848] @ q"
    then have "str_in [21151, 33021, 27010, 36848] (replicate 100 (65::nat))"
      unfolding str_in_iff .
    then have "set [21151, 33021, 27010, 36848] \<subseteq> set (replicate 100 (65::nat))"
      by (rule str_in_subset)
    then show False by simp
  qed
  have m: "[21151, 33021, 27010, 36848] \<in> set required_sections"
    by (simp add: required_sections_def)
  from good verify_markdown_spec [of ?good]
  have 1: "100 \<le> length (strip ?good)" by blast
  from verify_markdown_spec [of "[]"] have 2: "verify_markdown (JStr []) = Inr False" by blast
  from short verify_markdown_spec [of "replicate 100 32"]
  have 3: "verify_markdown (JStr (replicate 100 32)) = Inr False" by blast
  from missing m verify_markdown_spec [of "replicate 100 65"]
  have 4: "verify_markdown (JStr (replicate 100 65)) = Inr False" by blast
  from good 1 2 3 4 show ?thesis by blast
qed

section \<open>Properties of the analysis client\<close>

lemma requests_post [simp]: "requests (post p w) = requests w + 1" by (simp add: post_def)
lemma requests_sleep [simp]: "requests (sleep t w) = requests w" by (simp add: sleep_def)
lemma trace_post [simp]: "trace (post p w) = trace w @ [Request p]" by (simp add: post_def)
lemma trace_sleep [simp]: "trace (sleep t w) = trace w @ [Sleep t]" by (simp add: sleep_def)

lemma step_other:
  "http (requests w) = Response st rtext parsed \<Longrightarrow> st \<noteq> 200 \<Longrightarrow> st \<noteq> 429 \<Longrightarrow>
   analyze_with_claude http content dn rc w =
     (Inr (JStr (api_error_message st rtext)), post (prompt (truncate_content content MAX_CONTENT_LENGTH)) w)"
  by (subst analyze_with_claude.simps) (simp add: Let_def)

lemma step_429_last:
  "http (requests w) = Response 429 rtext parsed \<Longrightarrow> \<not> rc < MAX_RETRIES \<Longrightarrow>
   analyze_with_claude http content dn rc w =
     (Inr (JStr (max_retries_message rtext)), post (prompt (truncate_content content MAX_CONTENT_LENGTH)) w)"
  by (subst analyze_with_claude.simps) (simp add: Let_def)

lemma step_429_retry:
  "http (requests w) = Response 429 rtext parsed \<Longrightarrow> rc < MAX_RETRIES \<Longrightarrow>
   analyze_with_claude http content dn rc w =
     (case analyze_with_claude http content dn (rc + 1)
             (sleep (RETRY_DELAY * (rc + 1)) (post (prompt (truncate_content content MAX_CONTENT_LENGTH)) w)) of
        (Inr v, w') \<Rightarrow> (Inr v, w')
      | (Inl e, w') \<Rightarrow> analyze_with_claude http content dn (rc + 1) (sleep (RETRY_DELAY * (rc + 1)) w'))"
  by (subst analyze_with_claude.simps) (simp add: Let_def split: prod.splits sum.splits)

lemma step_200_ok:
  "http (requests w) = Response 200 rtext parsed \<Longrightarrow> on_200 parsed = Returned v \<Longrightarrow>
   analyze_with_claude http content dn rc w =
     (Inr v, post (prompt (truncate_content content MAX_CONTENT_LENGTH)) w)"
  by (subst analyze_with_claude.simps) (simp add: Let_def)

lemma step_200_raised:
  "http (requests w) = Response 200 rtext parsed \<Longrightarrow> on_200 parsed = Raised e rebound \<Longrightarrow>
   analyze_with_claude http content dn rc w =
     (let w1 = post (prompt (truncate_content content MAX_CONTENT_LENGTH)) w in
      if rc < MAX_RETRIES then
        (if rebound then (Inl e, sleep (RETRY_DELAY * (rc + 1)) w1)
         else analyze_with_claude http content dn (rc + 1) (sleep (RETRY_DELAY * (rc + 1)) w1))
      else (Inr (JStr (failure_message rc e)), w1))"
  by (subst analyze_with_claude.simps) (simp add: Let_def)

lemma step_raises:
  "http (requests w) = Raises e \<Longrightarrow>
   analyze_with_claude http content dn rc w =
     (let w1 = post (prompt (truncate_content content MAX_CONTENT_LENGTH)) w in
      if rc < MAX_RETRIES then
        analyze_with_claude http content dn (rc + 1) (sleep (RETRY_DELAY * (rc + 1)) w1)
      else (Inr (JStr (failure_message rc e)), w1))"
  by (subst analyze_with_claude.simps) (simp add: Let_def)

lemma rate_limited_run:
  assumes a: "\<And>n. http n = Response 429 (body n) (parsed n)"
  shows "analyze_with_claude http content dn 0 w =
     (Inr (JStr (max_retries_message (body (requests w + 5)))),
      w\<lparr>requests := requests w + 6,
        trace := trace w @
          [Request (prompt (truncate_content content MAX_CONTENT_LENGTH)), Sleep 5,
           Request (prompt (truncate_content content MAX_CONTENT_LENGTH)), Sleep 10,
           Request (prompt (truncate_content content MAX_CONTENT_LENGTH)), Sleep 15,
           Request (prompt (truncate_content content MAX_CONTENT_LENGTH)), Sleep 20,
           Request (prompt (truncate_content content MAX_CONTENT_LENGTH)), Sleep 25,
           Request (prompt (truncate_content content MAX_CONTENT_LENGTH))]\<rparr>)"
proof -
  let ?p = "prompt (truncate_content content MAX_CONTENT_LENGTH)"
  have r5: "\<And>w. analyze_with_claude http content dn 5 w =
      (Inr (JStr (max_retries_message (body (requests w)))), post ?p w)"
    by (simp add: step_429_last [OF a] MAX_RETRIES_def)
  have r4: "\<And>w. analyze_with_claude http content dn 4 w =
      (Inr (JStr (max_retries_message (body (requests w + 1)))), post ?p (sleep 25 (post ?p w)))"
    by (simp add: step_429_retry [OF a] r5 MAX_RETRIES_def RETRY_DELAY_def)
  have r3: "\<And>w. analyze_with_claude http content dn 3 w =
      (Inr (JStr (max_retries_message (body (requests w + 2)))),
       post ?p (sleep 25 (post ?p (sleep 20 (post ?p w)))))"
    by (simp add: step_429_retry [OF a] r4 MAX_RETRIES_def RETRY_DELAY_def;
        simp add: eval_nat_numeral)
  have r2: "\<And>w. analyze_with_claude http content dn 2 w =
      (Inr (JStr (max_retries_message (body (requests w + 3)))),
       post ?p (sleep 25 (post ?p (sleep 20 (post ?p (sleep 15 (post ?p w)))))))"
    by (simp add: step_429_retry [OF a] r3 MAX_RETRIES_def RETRY_DELAY_def;
        simp add: eval_nat_numeral)
  have r1: "\<And>w. analyze_with_claude http content dn 1 w =
      (Inr (JStr (max_retries_message (body (requests w + 4)))),
       post ?p (sleep 25 (post ?p (sleep 20 (post ?p (sleep 15 (post ?p (sleep 10 (post ?p w)))))))))"
    by (simp add: step_429_retry [OF a] r2 MAX_RETRIES_def RETRY_DELAY_def;
        simp add: eval_nat_numeral)
  have r0: "analyze_with_claude http content dn 0 w =
      (Inr (JStr (max_retries_message (body (requests w + 5)))),
       post ?p (sleep 25 (post ?p (sleep 20 (post ?p (sleep 15 (post ?p (sleep 10 (post ?p
         (sleep 5 (post ?p w)))))))))))"
    by (simp add: step_429_retry [OF a] r1 MAX_RETRIES_def RETRY_DELAY_def;
        simp add: eval_nat_numeral)
  show ?thesis
    unfolding r0 by (simp add: post_def sleep_def)
qed



lemma on_200_malformed:
  assumes "parsed = Inl e \<or> (\<exists>result. parsed = Inr result \<and> extract_content result = Inl e)"
  shows "on_200 parsed = Raised e False"
  using assms by (auto simp: on_200_def)

text \<open>
  C1, as amended. When a response of status 200 has a malformed body (\<open>json.loads\<close>
  raises, or the path \<open>choices[0].message.content\<close> is missing), the exception reaches
  the handler of line 155: while \<open>retry_count < MAX_RETRIES\<close> the client sleeps
  \<open>RETRY_DELAY * (retry_count + 1)\<close> seconds and calls itself again; only when the retry
  budget is used up does it return the failure string, without a further request.
\<close>

theorem malformed_200_is_retried:
  assumes "http (requests w) = Response 200 response_text parsed"
    and "parsed = Inl e \<or> (\<exists>result. parsed = Inr result \<and> extract_content result = Inl e)"
  shows "analyze_with_claude http content directory_name retry_count w =
     (if retry_count < MAX_RETRIES then
        analyze_with_claude http content directory_name (retry_count + 1)
          (sleep (RETRY_DELAY * (retry_count + 1))
             (post (prompt (truncate_content content MAX_CONTENT_LENGTH)) w))
      else (Inr (JStr (failure_message retry_count e)),
            post (prompt (truncate_content content MAX_CONTENT_LENGTH)) w))"
proof -
  have "on_200 parsed = Raised e False"
    using assms(2) by (rule on_200_malformed)
  with assms(1) show ?thesis
    using step_200_raised [of http w response_text parsed e False content
        directory_name retry_count]
    by (simp add: Let_def)
qed

lemma extract_content_empty_object:
  "extract_content (JObj []) = Inl (Exn KeyError ([39] @ ascii ''choices'' @ [39]))"
  by (simp add: extract_content_def)

theorem malformed_200_is_retried_witness:
  "analyze_with_claude (\<lambda>n. Response 200 (ascii ''{}'') (Inr (JObj [])))
     (ascii ''x'') (ascii ''.'') 4 \<lparr>requests = 0, trace = []\<rparr> =
     (Inr (JStr (error_message 5 (Exn KeyError ([39] @ ascii ''choices'' @ [39])))),
      \<lparr>requests = 2,
       trace = [Request (prompt (ascii ''x'')), Sleep 25, Request (prompt (ascii ''x''))]\<rparr>)"
proof -
  let ?http = "\<lambda>n::nat. Response 200 (ascii ''{}'') (Inr (JObj []))"
  let ?e = "Exn KeyError ([39] @ ascii ''choices'' @ [39])"
  have t: "truncate_content (ascii ''x'') MAX_CONTENT_LENGTH = ascii ''x''"
    by (simp add: truncate_content_short ascii_def)
  have m: "Inr (JObj []) = Inl ?e
      \<or> (\<exists>result. Inr (JObj []) = Inr result \<and> extract_content result = Inl ?e)"
    by (simp add: extract_content_empty_object)
  have step: "analyze_with_claude ?http content dn rc w =
     (if rc < MAX_RETRIES then
        analyze_with_claude ?http content dn (rc + 1)
          (sleep (RETRY_DELAY * (rc + 1))
             (post (prompt (truncate_content content MAX_CONTENT_LENGTH)) w))
      else (Inr (JStr (failure_message rc ?e)),
            post (prompt (truncate_content content MAX_CONTENT_LENGTH)) w))"
    for content dn rc w
    using m malformed_200_is_retried [where http = "?http" and w = w
        and response_text = "ascii ''{}''" and parsed = "Inr (JObj [])" and e = "?e"
        and content = content and directory_name = dn and retry_count = rc]
    by simp
  show ?thesis
    by (simp add: step t MAX_RETRIES_def RETRY_DELAY_def failure_message_def post_def sleep_def)
qed

lemma truncate_x: "truncate_content (ascii ''x'') MAX_CONTENT_LENGTH = ascii ''x''"
  by (simp add: truncate_content_short ascii_def)

lemma step_malformed:
  "http (requests w) = Response 200 rtext parsed \<Longrightarrow> on_200 parsed = Raised e False \<Longrightarrow>
   analyze_with_claude http content dn rc w =
     (if rc < MAX_RETRIES then
        analyze_with_claude http content dn (rc + 1)
          (sleep (RETRY_DELAY * (rc + 1))
             (post (prompt (truncate_content content MAX_CONTENT_LENGTH)) w))
      else (Inr (JStr (failure_message rc e)),
            post (prompt (truncate_content content MAX_CONTENT_LENGTH)) w))"
  using step_200_raised [of http w rtext parsed e False content dn rc]
  by (simp add: Let_def)

text \<open>
  C1 as stated fails: when every response has status 200 and a body that is not JSON, a
  call with \<open>retry_count = 0\<close> does not return after the first response but makes six
  requests, with sleeps of 5, 10, 15, 20 and 25 seconds, before it returns the failure
  string.
\<close>

theorem malformed_200_counterexample:
  "analyze_with_claude
     (\<lambda>n. Response 200 (ascii ''oops'') (Inl (Exn JSONDecodeError (ascii ''Expecting value: line 1 column 1 (char 0)''))))
     (ascii ''x'') (ascii ''.'') 0 \<lparr>requests = 0, trace = []\<rparr> =
     (Inr (JStr (error_message 5 (Exn JSONDecodeError (ascii ''Expecting value: line 1 column 1 (char 0)'')))),
      \<lparr>requests = 6,
       trace =
         [Request (prompt (ascii ''x'')), Sleep 5, Request (prompt (ascii ''x'')), Sleep 10,
          Request (prompt (ascii ''x'')), Sleep 15, Request (prompt (ascii ''x'')), Sleep 20,
          Request (prompt (ascii ''x'')), Sleep 25, Request (prompt (ascii ''x''))]\<rparr>)"
proof -
  let ?e = "Exn JSONDecodeError (ascii ''Expecting value: line 1 column 1 (char 0)'')"
  let ?http = "\<lambda>n::nat. Response 200 (ascii ''oops'') (Inl ?e)"
  have o: "on_200 (Inl ?e) = Raised ?e False"
    by (simp add: on_200_def)
  have step: "analyze_with_claude ?http content dn rc w =
     (if rc < MAX_RETRIES then
        analyze_with_claude ?http content dn (rc + 1)
          (sleep (RETRY_DELAY * (rc + 1))
             (post (prompt (truncate_content content MAX_CONTENT_LENGTH)) w))
      else (Inr (JStr (failure_message rc ?e)),
            post (prompt (truncate_content content MAX_CONTENT_LENGTH)) w))"
    for content dn rc w
    by (rule step_malformed [where rtext = "ascii ''oops''" and parsed = "Inl ?e"])
      (simp_all add: o)
  show ?thesis
    by (simp add: step truncate_x Let_def MAX_RETRIES_def RETRY_DELAY_def failure_message_def
        post_def sleep_def)
qed

text \<open>
  As long as every response of status 200 that decodes down to
  \<open>choices[0].message.content\<close> carries a string there, \<open>analyze_with_claude\<close> returns
  a string and no exception leaves it, whatever else the HTTP layer answers.
\<close>

lemma analyze_with_claude_returns_string:
  assumes typed: "\<And>n rtext parsed. http n = Response 200 rtext parsed \<Longrightarrow>
      (\<exists>s. on_200 parsed = Returned (JStr s)) \<or> (\<exists>e. on_200 parsed = Raised e False)"
  shows "\<exists>s w'. analyze_with_claude http content dn rc w = (Inr (JStr s), w')"
proof (induction "nat (MAX_RETRIES - rc)" arbitrary: rc w)
  case 0
  then have last: "\<not> rc < MAX_RETRIES" by simp
  show ?case
  proof (cases "http (requests w)")
    case (Raises e)
    with last show ?thesis
      by (simp add: step_raises [of http w e] Let_def)
  next
    case (Response st rtext parsed)
    show ?thesis
    proof (cases "st = 200")
      case True
      with Response typed [of "requests w" rtext parsed]
      consider s where "on_200 parsed = Returned (JStr s)"
        | e where "on_200 parsed = Raised e False"
        by auto
      then show ?thesis
      proof cases
        case 1
        with Response True show ?thesis
          by (simp add: step_200_ok [of http w rtext parsed "JStr s"])
      next
        case 2
        with Response True last show ?thesis
          by (simp add: step_200_raised [of http w rtext parsed e False] Let_def)
      qed
    next
      case False
      with Response last show ?thesis
        by (cases "st = 429")
          (simp_all add: step_429_last [of http w rtext parsed]
            step_other [of http w st rtext parsed])
    qed
  qed
next
  case (Suc k)
  then have more: "rc < MAX_RETRIES" and k: "k = nat (MAX_RETRIES - (rc + 1))" by simp_all
  let ?p = "prompt (truncate_content content MAX_CONTENT_LENGTH)"
  let ?d = "RETRY_DELAY * (rc + 1)"
  have ih: "\<exists>s w''. analyze_with_claude http content dn (rc + 1) w' = (Inr (JStr s), w'')"
    for w'
    using Suc.hyps(1) [OF k] .
  show ?case
  proof (cases "http (requests w)")
    case (Raises e)
    with more ih [of "sleep ?d (post ?p w)"] show ?thesis
      by (simp add: step_raises [of http w e] Let_def)
  next
    case (Response st rtext parsed)
    show ?thesis
    proof (cases "st = 200")
      case True
      with Response typed [of "requests w" rtext parsed]
      consider s where "on_200 parsed = Returned (JStr s)"
        | e where "on_200 parsed = Raised e False"
        by auto
      then show ?thesis
      proof cases
        case 1
        with Response True show ?thesis
          by (simp add: step_200_ok [of http w rtext parsed "JStr s"])
      next
        case 2
        with Response True more ih [of "sleep ?d (post ?p w)"] show ?thesis
          by (simp add: step_200_raised [of http w rtext parsed e False] Let_def)
      qed
    next
      case False
      show ?thesis
      proof (cases "st = 429")
        case True
        from ih [of "sleep ?d (post ?p w)"] obtain s w'' where
          "analyze_with_claude http content dn (rc + 1) (sleep ?d (post ?p w)) = (Inr (JStr s), w'')"
          by blast
        with Response True more show ?thesis
          by (simp add: step_429_retry [of http w rtext parsed])
      next
        case other: False
        with Response False show ?thesis
          by (simp add: step_other [of http w st rtext parsed])
      qed
    qed
  qed
qed

text \<open>
  C7 fails on the code. Line 127 assigns the decoded value to the parameter \<open>content\<close>.
  When a response of status 200 carries \<open>null\<close> at \<open>choices[0].message.content\<close>,
  \<open>len(content)\<close> of line 128 raises a \<open>TypeError\<close>, the handler of line 155 sleeps and
  calls \<open>analyze_with_claude\<close> with \<open>None\<close>, and the \<open>len\<close> in \<open>truncate_content\<close>
  (line 74, outside the \<open>try\<close> block) raises a \<open>TypeError\<close> that leaves the function.
  When the value at that path is a list, the function returns the list, which is not a
  string. The two response texts below are
  \<^verbatim>\<open>{"choices":[{"message":{"role":"assistant","content":null}}]}\<close> and the same with
  \<^verbatim>\<open>[]\<close> in place of \<^verbatim>\<open>null\<close>.
\<close>

theorem null_content_escapes:
  "analyze_with_claude
     (\<lambda>n. Response 200 
          [123, 34, 99, 104, 111, 105, 99, 101, 115, 34, 58, 91, 123, 34, 109,
            101, 115, 115, 97, 103, 101, 34, 58, 123, 34, 114, 111, 108, 101, 34,
            58, 34, 97, 115, 115, 105, 115, 116, 97, 110, 116, 34, 44, 34, 99,
            111, 110, 116, 101, 110, 116, 34, 58, 110, 117, 108, 108, 125, 125,
            93, 125]
        (Inr (JObj [(ascii ''choices'',
           JArr [JObj [(ascii ''message'',
             JObj [(ascii ''role'', JStr (ascii ''assistant'')),
                   (ascii ''content'', JNull)])]])])))
     (ascii ''x'') (ascii ''.'') 0 \<lparr>requests = 0, trace = []\<rparr> =
     (Inl (Exn TypeError
        (ascii ''object of type '' @ [39] @ ascii ''NoneType'' @ [39] @ ascii '' has no len()'')),
      \<lparr>requests = 1, trace = [Request (prompt (ascii ''x'')), Sleep 5]\<rparr>)
   \<and> analyze_with_claude
     (\<lambda>n. Response 200 
          [123, 34, 99, 104, 111, 105, 99, 101, 115, 34, 58, 91, 123, 34, 109,
            101, 115, 115, 97, 103, 101, 34, 58, 123, 34, 114, 111, 108, 101, 34,
            58, 34, 97, 115, 115, 105, 115, 116, 97, 110, 116, 34, 44, 34, 99,
            111, 110, 116, 101, 110, 116, 34, 58, 91, 93, 125, 125, 93, 125]
        (Inr (JObj [(ascii ''choices'',
           JArr [JObj [(ascii ''message'',
             JObj [(ascii ''role'', JStr (ascii ''assistant'')),
                   (ascii ''content'', JArr [])])]])])))
     (ascii ''x'') (ascii ''.'') 0 \<lparr>requests = 0, trace = []\<rparr> =
     (Inr (JArr []), \<lparr>requests = 1, trace = [Request (prompt (ascii ''x''))]\<rparr>)"
proof -
  let ?null_text = "[123, 34, 99, 104, 111, 105, 99, 101, 115, 34, 58, 91, 123, 34, 109,
        101, 115, 115, 97, 103, 101, 34, 58, 123, 34, 114, 111, 108, 101, 34,
        58, 34, 97, 115, 115, 105, 115, 116, 97, 110, 116, 34, 44, 34, 99,
        111, 110, 116, 101, 110, 116, 34, 58, 110, 117, 108, 108, 125, 125,
        93, 125]"
  let ?list_text = "[123, 34, 99, 104, 111, 105, 99, 101, 115, 34, 58, 91, 123, 34, 109,
        101, 115, 115, 97, 103, 101, 34, 58, 123, 34, 114, 111, 108, 101, 34,
        58, 34, 97, 115, 115, 105, 115, 116, 97, 110, 116, 34, 44, 34, 99,
        111, 110, 116, 101, 110, 116, 34, 58, 91, 93, 125, 125, 93, 125]"
  let ?e = "Exn TypeError
        (ascii ''object of type '' @ [39] @ ascii ''NoneType'' @ [39] @ ascii '' has no len()'')"
  let ?null = "JObj [(ascii ''choices'',
           JArr [JObj [(ascii ''message'',
             JObj [(ascii ''role'', JStr (ascii ''assistant'')),
                   (ascii ''content'', JNull)])]])]"
  let ?list = "JObj [(ascii ''choices'',
           JArr [JObj [(ascii ''message'',
             JObj [(ascii ''role'', JStr (ascii ''assistant'')),
                   (ascii ''content'', JArr [])])]])]"
  have "extract_content ?null = Inr JNull"
    by (simp add: extract_content_def ascii_def)
  then have o: "on_200 (Inr ?null) = Raised ?e True"
    by (simp add: on_200_def)
  have 1: "analyze_with_claude (\<lambda>n. Response 200 ?null_text (Inr ?null))
     (ascii ''x'') (ascii ''.'') 0 \<lparr>requests = 0, trace = []\<rparr> =
     (Inl ?e, \<lparr>requests = 1, trace = [Request (prompt (ascii ''x'')), Sleep 5]\<rparr>)"
    using o step_200_raised [of "\<lambda>n. Response 200 ?null_text (Inr ?null)"
        "\<lparr>requests = 0, trace = []\<rparr>" ?null_text
        "Inr ?null" ?e True "ascii ''x''" "ascii ''.''" 0]
    by (simp add: truncate_x Let_def MAX_RETRIES_def RETRY_DELAY_def post_def sleep_def)
  have "extract_content ?list = Inr (JArr [])"
    by (simp add: extract_content_def ascii_def)
  then have p: "on_200 (Inr ?list) = Returned (JArr [])"
    by (simp add: on_200_def)
  have 2: "analyze_with_claude (\<lambda>n. Response 200 ?list_text (Inr ?list))
     (ascii ''x'') (ascii ''.'') 0 \<lparr>requests = 0, trace = []\<rparr> =
     (Inr (JArr []), \<lparr>requests = 1, trace = [Request (prompt (ascii ''x''))]\<rparr>)"
    using p step_200_ok [of "\<lambda>n. Response 200 ?list_text (Inr ?list)"
        "\<lparr>requests = 0, trace = []\<rparr>" ?list_text
        "Inr ?list" "JArr []" "ascii ''x''" "ascii ''.''" 0]
    by (simp add: truncate_x post_def)
  from 1 2 show ?thesis by (rule conjI)
qed

section \<open>What the analysis client adds to the trace\<close>









section \<open>Properties of the directory analyzer\<close>



lemma validate_loop_accept:
  "rc < MAX_RETRIES \<Longrightarrow> verify_markdown analysis = Inr True \<Longrightarrow>
   validate_loop env d fc dn analysis rc w =
     write_report env d analysis (log_event (Verify analysis True) w)"
  by (subst validate_loop.simps) (simp add: Let_def)




















lemma not_skip_p: "\<not> should_skip_directory (ascii ''/p'')"
  by (simp add: should_skip_directory_def basename_def SKIP_DIRS_def ascii_def)

lemma analyze_a_py: "should_analyze_file (ascii ''/p/a.py'')"
  by (simp add: should_analyze_file_def splitext_ext_def basename_def lower_def
      ANALYZE_EXTENSIONS_def ascii_def Let_def)

lemma join_p_a_py: "path_join (ascii ''/p'') (ascii ''a.py'') = ascii ''/p/a.py''"
  by (simp add: path_join_def ascii_def)


lemma rate_limited_report_written:
  assumes skip: "\<not> should_skip_directory directory"
    and ls: "listdir env directory = Inr items"
    and files: "collect_files env directory items = fs" "fs \<noteq> []"
    and limited: "\<And>n. http_layer env n = Response 429 body (parsed n)"
    and ok: "verify_markdown (JStr (max_retries_message body)) = Inr True"
    and wr: "\<And>f. write_text env f (max_retries_message body) = None"
    and p: "p = prompt (truncate_content (build_content env directory fs) MAX_CONTENT_LENGTH)"
    and evs: "evs = [Request p, Sleep 5, Request p, Sleep 10, Request p, Sleep 15,
        Request p, Sleep 20, Request p, Sleep 25, Request p,
        Verify (JStr (max_retries_message body)) True]"
  shows "analyze_single_directory env directory base_dir w =
     (Inr (),
      w\<lparr>requests := requests w + 6,
        trace := trace w @ evs @
          [Write (path_join directory
                    (ascii ''directory_analysis_'' @ now env (trace w @ evs) @ ascii ''.md''))
             (JStr (max_retries_message body))]\<rparr>)"
proof -
  let ?fc = "build_content env directory fs"
  let ?dn = "relpath env directory base_dir"
  let ?msg = "JStr (max_retries_message body)"
  let ?w1 = "w\<lparr>requests := requests w + 6,
        trace := trace w @
          [Request p, Sleep 5, Request p, Sleep 10, Request p, Sleep 15,
           Request p, Sleep 20, Request p, Sleep 25, Request p]\<rparr>"
  have a: "analyze_with_claude (http_layer env) ?fc ?dn 0 w = (Inr ?msg, ?w1)"
    using rate_limited_run [of "http_layer env" "\<lambda>n. body" parsed ?fc ?dn w, OF limited]
    by (simp add: p)
  have v: "validate_loop env directory ?fc ?dn ?msg 0 ?w1 =
      write_report env directory ?msg (log_event (Verify ?msg True) ?w1)"
    by (rule validate_loop_accept) (simp_all add: MAX_RETRIES_def ok)
  have "analyze_single_directory env directory base_dir w =
      write_report env directory ?msg (log_event (Verify ?msg True) ?w1)"
    using skip ls files a v by (simp add: analyze_single_directory_def Let_def)
  then show ?thesis
    by (simp add: write_report_def Let_def log_event_def wr evs)
qed

lemma rate_limited_sample:
  "verify_markdown (JStr (max_retries_message (concat required_sections @ replicate 100 65))) = Inr True
     \<and> analyze_single_directory
         \<lparr>http_layer = \<lambda>n. Response 429 (concat required_sections @ replicate 100 65) (Inl (Exn JSONDecodeError (ascii ''Expecting value: line 1 column 1 (char 0)''))),
          listdir = \<lambda>d. Inr [ascii ''a.py''], isfile = \<lambda>f. True,
          read_text = \<lambda>f. Inr (ascii ''x''), relpath = \<lambda>f d. drop (Suc (length d)) f,
          now = \<lambda>t. ascii ''20240101_000000'', write_text = \<lambda>f s. None\<rparr>
         (ascii ''/p'') (ascii ''/p'') \<lparr>requests = 0, trace = []\<rparr> =
       (Inr (),
        \<lparr>requests = 6,
         trace =
           [Request (prompt ([10] @ ascii ''### File: a.py'' @ [10, 96, 96, 96, 10]
              @ ascii ''x'' @ [10, 96, 96, 96])), Sleep 5,
            Request (prompt ([10] @ ascii ''### File: a.py'' @ [10, 96, 96, 96, 10]
              @ ascii ''x'' @ [10, 96, 96, 96])), Sleep 10,
            Request (prompt ([10] @ ascii ''### File: a.py'' @ [10, 96, 96, 96, 10]
              @ ascii ''x'' @ [10, 96, 96, 96])), Sleep 15,
            Request (prompt ([10] @ ascii ''### File: a.py'' @ [10, 96, 96, 96, 10]
              @ ascii ''x'' @ [10, 96, 96, 96])), Sleep 20,
            Request (prompt ([10] @ ascii ''### File: a.py'' @ [10, 96, 96, 96, 10]
              @ ascii ''x'' @ [10, 96, 96, 96])), Sleep 25,
            Request (prompt ([10] @ ascii ''### File: a.py'' @ [10, 96, 96, 96, 10]
              @ ascii ''x'' @ [10, 96, 96, 96])),
            Verify (JStr (max_retries_message (concat required_sections @ replicate 100 65))) True,
            Write (ascii ''/p/directory_analysis_20240101_000000.md'')
              (JStr (max_retries_message (concat required_sections @ replicate 100 65)))]\<rparr>)"
proof -
  let ?body = "concat required_sections @ replicate 100 (65::nat)"
  let ?front = "[36798, 21040, 26368, 22823, 37325, 35797, 27425, 25968, 32, 40]
     @ str_int MAX_RETRIES @ [41, 65292, 26368, 21518, 38169, 35823, 58, 32]"
  let ?env = "\<lparr>http_layer = \<lambda>n. Response 429 ?body (Inl (Exn JSONDecodeError (ascii ''Expecting value: line 1 column 1 (char 0)''))),
          listdir = \<lambda>d. Inr [ascii ''a.py''], isfile = \<lambda>f. True,
          read_text = \<lambda>f. Inr (ascii ''x''), relpath = \<lambda>f d. drop (Suc (length d)) f,
          now = \<lambda>t. ascii ''20240101_000000'', write_text = \<lambda>f s. None\<rparr>"
  let ?part = "[10] @ ascii ''### File: a.py'' @ [10, 96, 96, 96, 10] @ ascii ''x''
      @ [10, 96, 96, 96]"
  have m: "max_retries_message ?body = ?front @ concat required_sections @ replicate 100 65"
    by (simp add: max_retries_message_def)
  have "strip (?front @ concat required_sections @ replicate 100 65) =
      ?front @ concat required_sections @ replicate 100 65"
    by (rule strip_unchanged) (simp_all add: isspace_def)
  then have "100 \<le> length (strip (?front @ concat required_sections @ replicate 100 65))"
    by simp
  then have "verify_markdown (JStr (?front @ concat required_sections @ replicate 100 65)) =
      Inr True"
    by (rule verify_markdown_accepts)
  then have ok: "verify_markdown (JStr (max_retries_message ?body)) = Inr True"
    by (simp only: m)
  have files: "collect_files ?env (ascii ''/p'') [ascii ''a.py''] = [ascii ''/p/a.py'']"
    by (simp add: collect_files_def join_p_a_py analyze_a_py)
  have rel: "drop (Suc (length (ascii ''/p''))) (ascii ''/p/a.py'') = ascii ''a.py''"
    by (simp add: ascii_def)
  have fc: "build_content ?env (ascii ''/p'') [ascii ''/p/a.py''] = ?part"
    by (simp add: build_content_def content_part_def get_file_content_def Let_def ascii_def)
  have short: "truncate_content ?part MAX_CONTENT_LENGTH = ?part"
    by (rule truncate_content_short) (simp add: ascii_def)
  have out: "path_join (ascii ''/p'')
      (ascii ''directory_analysis_'' @ ascii ''20240101_000000'' @ ascii ''.md'') =
      ascii ''/p/directory_analysis_20240101_000000.md''"
    by (simp add: path_join_def ascii_def)
  have run: "analyze_single_directory ?env (ascii ''/p'') (ascii ''/p'')
      \<lparr>requests = 0, trace = []\<rparr> =
      (Inr (),
        \<lparr>requests = 6,
         trace =
           [Request (prompt ?part), Sleep 5, Request (prompt ?part), Sleep 10,
            Request (prompt ?part), Sleep 15, Request (prompt ?part), Sleep 20,
            Request (prompt ?part), Sleep 25, Request (prompt ?part),
            Verify (JStr (max_retries_message ?body)) True,
            Write (ascii ''/p/directory_analysis_20240101_000000.md'')
              (JStr (max_retries_message ?body))]\<rparr>)"
  proof -
    have ls: "listdir ?env (ascii ''/p'') = Inr [ascii ''a.py'']" by simp
    have ne: "[ascii ''/p/a.py''] \<noteq> []" by simp
    have lim: "http_layer ?env n =
        Response 429 ?body (Inl (Exn JSONDecodeError (ascii ''Expecting value: line 1 column 1 (char 0)'')))" for n
      by simp
    have wr: "write_text ?env f (max_retries_message ?body) = None" for f by simp
    have pp: "prompt ?part = prompt (truncate_content
        (build_content ?env (ascii ''/p'') [ascii ''/p/a.py'']) MAX_CONTENT_LENGTH)"
      by (simp only: fc short)
    note r = rate_limited_report_written [where directory = "ascii ''/p''" and env = ?env
        and items = "[ascii ''a.py'']" and fs = "[ascii ''/p/a.py'']" and body = ?body
        and parsed = "\<lambda>n. Inl (Exn JSONDecodeError (ascii ''Expecting value: line 1 column 1 (char 0)''))"
        and p = "prompt ?part" and base_dir = "ascii ''/p''"
        and w = "\<lparr>requests = 0, trace = []\<rparr>",
        OF not_skip_p ls files ne lim ok wr pp refl]
    show ?thesis
      using r by (simp add: out)
  qed
  from ok run show ?thesis
    by (rule conjI)
qed

text \<open>
  C8. There is a response body with which the max-retries failure string passes
  \<open>verify_markdown\<close>: when every request is answered with status 429 and that body,
  \<open>analyze_with_claude\<close> uses up its retries and returns the failure string carrying
  the body, and \<open>analyze_single_directory\<close> accepts the failure string and writes it
  to the report file.
\<close>

theorem failure_message_accepted_as_report:
  "\<exists>body.
     verify_markdown (JStr (max_retries_message body)) = Inr True
     \<and> analyze_single_directory
         \<lparr>http_layer = \<lambda>n. Response 429 body (Inl (Exn JSONDecodeError (ascii ''Expecting value: line 1 column 1 (char 0)''))),
          listdir = \<lambda>d. Inr [ascii ''a.py''], isfile = \<lambda>f. True,
          read_text = \<lambda>f. Inr (ascii ''x''), relpath = \<lambda>f d. drop (Suc (length d)) f,
          now = \<lambda>t. ascii ''20240101_000000'', write_text = \<lambda>f s. None\<rparr>
         (ascii ''/p'') (ascii ''/p'') \<lparr>requests = 0, trace = []\<rparr> =
       (Inr (),
        \<lparr>requests = 6,
         trace =
           [Request (prompt ([10] @ ascii ''### File: a.py'' @ [10, 96, 96, 96, 10]
              @ ascii ''x'' @ [10, 96, 96, 96])), Sleep 5,
            Request (prompt ([10] @ ascii ''### File: a.py'' @ [10, 96, 96, 96, 10]
              @ ascii ''x'' @ [10, 96, 96, 96])), Sleep 10,
            Request (prompt ([10] @ ascii ''### File: a.py'' @ [10, 96, 96, 96, 10]
              @ ascii ''x'' @ [10, 96, 96, 96])), Sleep 15,
            Request (prompt ([10] @ ascii ''### File: a.py'' @ [10, 96, 96, 96, 10]
              @ ascii ''x'' @ [10, 96, 96, 96])), Sleep 20,
            Request (prompt ([10] @ ascii ''### File: a.py'' @ [10, 96, 96, 96, 10]
              @ ascii ''x'' @ [10, 96, 96, 96])), Sleep 25,
            Request (prompt ([10] @ ascii ''### File: a.py'' @ [10, 96, 96, 96, 10]
              @ ascii ''x'' @ [10, 96, 96, 96])),
            Verify (JStr (max_retries_message body)) True,
            Write (ascii ''/p/directory_analysis_20240101_000000.md'')
              (JStr (max_retries_message body))]\<rparr>)"
  using rate_limited_sample
  by (intro exI [of _ "concat required_sections @ replicate 100 65"])


end
